theory Spec2Isabelle
  imports Main "HOL-Library.Word"
begin

section \<open>Machine types, faults and byte slices\<close>

text \<open>
  A node is a Go byte slice. Bytes are 8-bit words, indices and sizes are \<open>uint16\<close>
  (16-bit words, so \<open>+\<close>, \<open>-\<close> and \<open>*\<close> wrap around as in the source) and page
  pointers are \<open>uint64\<close>. Two ways of not returning are kept apart:
  \<open>Fatal\<close> is \<open>log.Fatal\<close> (the process exits) and \<open>Panic\<close> is a Go run-time
  panic (an index or slice bound out of range, or the explicit \<open>panic\<close>).
\<close>

type_synonym byte = "8 word"
type_synonym u16 = "16 word"
type_synonym u64 = "64 word"
type_synonym BNode = "byte list"

datatype fault = Fatal | Panic

definition bindE :: "fault + 'a \<Rightarrow> ('a \<Rightarrow> fault + 'b) \<Rightarrow> fault + 'b" where
  "bindE m f = (case m of Inl e \<Rightarrow> Inl e | Inr x \<Rightarrow> f x)"

definition BNODE_NODE :: u16 where "BNODE_NODE = 1"
definition BNODE_LEAF :: u16 where "BNODE_LEAF = 2"
definition HEADER :: u16 where "HEADER = 4"
definition BTREE_PAGE_SIZE :: nat where "BTREE_PAGE_SIZE = 4096"
definition BTREE_MAX_KEY_SIZE :: nat where "BTREE_MAX_KEY_SIZE = 1000"
definition BTREE_MAX_VAL_SIZE :: nat where "BTREE_MAX_VAL_SIZE = 3000"

text \<open>Little-endian numbers: \<open>le_encode k n\<close> is the \<open>k\<close> low bytes of \<open>n\<close>.\<close>

fun le_encode :: "nat \<Rightarrow> nat \<Rightarrow> byte list" where
  "le_encode 0 n = []"
| "le_encode (Suc k) n = word_of_nat (n mod 256) # le_encode k (n div 256)"

fun le_decode :: "byte list \<Rightarrow> nat" where
  "le_decode [] = 0"
| "le_decode (b # bs) = unat b + 256 * le_decode bs"

text \<open>
  \<open>binary.LittleEndian\<close>: reading or writing a number panics when the slice is too short.
  A write changes the first bytes of the slice it is given.
\<close>

definition Uint16 :: "byte list \<Rightarrow> fault + u16" where
  "Uint16 b = (if length b < 2 then Inl Panic else Inr (word_of_nat (le_decode (take 2 b))))"

definition Uint64 :: "byte list \<Rightarrow> fault + u64" where
  "Uint64 b = (if length b < 8 then Inl Panic else Inr (word_of_nat (le_decode (take 8 b))))"

definition PutUint16 :: "byte list \<Rightarrow> u16 \<Rightarrow> fault + byte list" where
  "PutUint16 b v = (if length b < 2 then Inl Panic else Inr (le_encode 2 (unat v) @ drop 2 b))"

definition PutUint64 :: "byte list \<Rightarrow> u64 \<Rightarrow> fault + byte list" where
  "PutUint64 b v = (if length b < 8 then Inl Panic else Inr (le_encode 8 (unat v) @ drop 8 b))"

text \<open>\<open>copy(dst, src)\<close> copies as many bytes as both slices have.\<close>

definition copy_bytes :: "byte list \<Rightarrow> byte list \<Rightarrow> byte list" where
  "copy_bytes dst src = take (length dst) src @ drop (length src) dst"

text \<open>
  \<open>node[a:b]\<close> and \<open>node[pos:]\<close>; a slice of a node shares the node's memory, so an
  operation that writes into \<open>node[pos:]\<close> changes the node from \<open>pos\<close> on
  (\<open>on_slice_from\<close>).
\<close>

definition slice :: "byte list \<Rightarrow> nat \<Rightarrow> nat \<Rightarrow> fault + byte list" where
  "slice node a b = (if a \<le> b \<and> b \<le> length node then Inr (take (b - a) (drop a node)) else Inl Panic)"

definition slice_from :: "byte list \<Rightarrow> nat \<Rightarrow> fault + byte list" where
  "slice_from node pos = (if pos \<le> length node then Inr (drop pos node) else Inl Panic)"

definition on_slice_from :: "byte list \<Rightarrow> nat \<Rightarrow> (byte list \<Rightarrow> fault + byte list) \<Rightarrow> fault + byte list" where
  "on_slice_from node pos f =
     bindE (slice_from node pos) (\<lambda>s. bindE (f s) (\<lambda>s'. Inr (take pos node @ s')))"

text \<open>\<open>bytes.Compare\<close>: lexicographic order on unsigned bytes, as \<open>-1\<close>, \<open>0\<close> or \<open>1\<close>.\<close>

fun bytes_Compare :: "byte list \<Rightarrow> byte list \<Rightarrow> int" where
  "bytes_Compare [] [] = 0"
| "bytes_Compare [] (y # ys) = -1"
| "bytes_Compare (x # xs) [] = 1"
| "bytes_Compare (x # xs) (y # ys) =
     (if x < y then -1 else if y < x then 1 else bytes_Compare xs ys)"

section \<open>The page codec\<close>

definition btype :: "BNode \<Rightarrow> fault + u16" where
  "btype node = bindE (slice node 0 2) Uint16"

definition nkeys :: "BNode \<Rightarrow> fault + u16" where
  "nkeys node = bindE (slice node 2 4) Uint16"

definition setHeader :: "BNode \<Rightarrow> u16 \<Rightarrow> u16 \<Rightarrow> fault + BNode" where
  "setHeader node bt n =
     bindE (slice node 0 2) (\<lambda>s0. bindE (PutUint16 s0 bt) (\<lambda>s0'.
       let node1 = s0' @ drop 2 node in
       bindE (slice node1 2 4) (\<lambda>s1. bindE (PutUint16 s1 n) (\<lambda>s1'.
         Inr (take 2 node1 @ s1' @ drop 4 node1)))))"

definition getPtr :: "BNode \<Rightarrow> u16 \<Rightarrow> fault + u64" where
  "getPtr node idx =
     bindE (nkeys node) (\<lambda>n.
       if \<not> idx < n then Inl Fatal
       else let pos = HEADER + 8 * idx in
            bindE (slice_from node (unat pos)) Uint64)"

definition setPtr :: "BNode \<Rightarrow> u16 \<Rightarrow> u64 \<Rightarrow> fault + BNode" where
  "setPtr node idx val =
     bindE (nkeys node) (\<lambda>n.
       if \<not> idx < n then Inl Fatal
       else let pos = HEADER + 8 * idx in
            on_slice_from node (unat pos) (\<lambda>s. PutUint64 s val))"

definition offsetPos :: "BNode \<Rightarrow> u16 \<Rightarrow> fault + u16" where
  "offsetPos node idx =
     (if \<not> 1 \<le> idx then Inl Fatal
      else bindE (nkeys node) (\<lambda>n.
        if \<not> idx \<le> n then Inl Fatal
        else bindE (nkeys node) (\<lambda>n'. Inr (HEADER + 8 * n' + 2 * (idx - 1)))))"

definition getOffset :: "BNode \<Rightarrow> u16 \<Rightarrow> fault + u16" where
  "getOffset node idx =
     (if idx = 0 then Inr 0
      else bindE (offsetPos node idx) (\<lambda>p. bindE (slice_from node (unat p)) Uint16))"

definition setOffset :: "BNode \<Rightarrow> u16 \<Rightarrow> u16 \<Rightarrow> fault + BNode" where
  "setOffset node idx off =
     bindE (offsetPos node idx) (\<lambda>p. on_slice_from node (unat p) (\<lambda>s. PutUint16 s off))"

definition kvPos :: "BNode \<Rightarrow> u16 \<Rightarrow> fault + u16" where
  "kvPos node idx =
     bindE (nkeys node) (\<lambda>n.
       if \<not> idx \<le> n then Inl Fatal
       else bindE (getOffset node idx) (\<lambda>off. Inr (HEADER + 8 * n + 2 * n + off)))"

definition getKey :: "BNode \<Rightarrow> u16 \<Rightarrow> fault + byte list" where
  "getKey node idx =
     bindE (nkeys node) (\<lambda>n.
       if \<not> idx < n then Inl Fatal
       else bindE (kvPos node idx) (\<lambda>pos.
            bindE (bindE (slice_from node (unat pos)) Uint16) (\<lambda>klen.
            bindE (slice_from node (unat (pos + 4))) (\<lambda>s.
              slice s 0 (unat klen)))))"

definition getVal :: "BNode \<Rightarrow> u16 \<Rightarrow> fault + byte list" where
  "getVal node idx =
     bindE (nkeys node) (\<lambda>n.
       if \<not> idx < n then Inl Fatal
       else bindE (kvPos node idx) (\<lambda>pos.
            bindE (bindE (slice_from node (unat pos)) Uint16) (\<lambda>klen.
            bindE (bindE (slice_from node (unat (pos + 2))) Uint16) (\<lambda>vlen.
            bindE (slice_from node (unat (pos + 4 + klen))) (\<lambda>s.
              slice s 0 (unat vlen))))))"

definition nbytes :: "BNode \<Rightarrow> fault + u16" where
  "nbytes node = bindE (nkeys node) (\<lambda>n. kvPos node n)"

lemma bindE_cong [fundef_cong]:
  "m = m' \<Longrightarrow> (\<And>x. m' = Inr x \<Longrightarrow> f x = f' x) \<Longrightarrow> bindE m f = bindE m' f'"
  by (auto simp: bindE_def split: sum.splits)

lemma unat_succ_below: "(i :: u16) < n \<Longrightarrow> unat (i + 1) = Suc (unat i)"
  by unat_arith

text \<open>
  \<open>nodeLookupLE\<close>: the linear scan. The counter is a \<open>uint16\<close>, so \<open>i - 1\<close> at
  \<open>i = 0\<close> is 65535.
\<close>

function lookup_loop :: "BNode \<Rightarrow> byte list \<Rightarrow> u16 \<Rightarrow> u16 \<Rightarrow> fault + u16" where
  "lookup_loop node key n i =
     (if i < n then
        bindE (getKey node i) (\<lambda>k.
          let cmp = bytes_Compare k key in
          if cmp = 0 then Inr i
          else if cmp > 0 then Inr (i - 1)
          else lookup_loop node key n (i + 1))
      else Inr (i - 1))"
  by pat_completeness auto
termination
  by (relation "measure (\<lambda>(node, key, n, i). unat n - unat i)")
     (auto simp: unat_succ_below word_less_nat_alt)

definition nodeLookupLE :: "BNode \<Rightarrow> byte list \<Rightarrow> fault + u16" where
  "nodeLookupLE node key = bindE (nkeys node) (\<lambda>n. lookup_loop node key n 0)"


text \<open>
  \<open>nodeAppendKV\<close> writes one entry into \<open>new\<close>: the pointer, the two lengths, the key,
  the value, and the offset of the next entry. The key and the value are handed over as
  the bytes they hold when the call is made.
\<close>

definition nodeAppendKV :: "BNode \<Rightarrow> u16 \<Rightarrow> u64 \<Rightarrow> byte list \<Rightarrow> byte list \<Rightarrow> fault + BNode" where
  "nodeAppendKV new idx ptr key val =
     bindE (setPtr new idx ptr) (\<lambda>new1.
     bindE (kvPos new1 idx) (\<lambda>pos.
     bindE (on_slice_from new1 (unat pos) (\<lambda>s. PutUint16 s (word_of_nat (length key)))) (\<lambda>new2.
     bindE (on_slice_from new2 (unat (pos + 2)) (\<lambda>s. PutUint16 s (word_of_nat (length val)))) (\<lambda>new3.
     bindE (on_slice_from new3 (unat (pos + 4)) (\<lambda>s. Inr (copy_bytes s key))) (\<lambda>new4.
     bindE (on_slice_from new4 (unat (pos + 4 + word_of_nat (length key))) (\<lambda>s. Inr (copy_bytes s val))) (\<lambda>new5.
     bindE (getOffset new5 idx) (\<lambda>off.
       setOffset new5 (idx + 1) (off + 4 + word_of_nat (length key + length val)))))))))"

section \<open>Operations on two buffers\<close>

text \<open>
  The functions below read one buffer and write another. The buffers live in a store
  (a map from buffer names to contents), so that a call which passes the same buffer as
  source and as destination reads what it has just written, as the Go slices do.
\<close>

type_synonym 'r store = "'r \<Rightarrow> BNode"

function appendRange_loop ::
  "'r store \<Rightarrow> 'r \<Rightarrow> 'r \<Rightarrow> u16 \<Rightarrow> u16 \<Rightarrow> u16 \<Rightarrow> u16 \<Rightarrow> fault + 'r store" where
  "appendRange_loop h new old dstNew srcOld n i =
     (if i < n then
        let dst = dstNew + i; src = srcOld + i in
        bindE (getPtr (h old) src) (\<lambda>p.
        bindE (getKey (h old) src) (\<lambda>k.
        bindE (getVal (h old) src) (\<lambda>v.
        bindE (nodeAppendKV (h new) dst p k v) (\<lambda>b.
          appendRange_loop (h(new := b)) new old dstNew srcOld n (i + 1)))))
      else Inr h)"
  by pat_completeness auto
termination
  by (relation "measure (\<lambda>(h, new, old, dstNew, srcOld, n, i). unat n - unat i)")
     (auto simp: unat_succ_below word_less_nat_alt)

definition nodeAppendRange ::
  "'r store \<Rightarrow> 'r \<Rightarrow> 'r \<Rightarrow> u16 \<Rightarrow> u16 \<Rightarrow> u16 \<Rightarrow> fault + 'r store" where
  "nodeAppendRange h new old dstNew srcOld n = appendRange_loop h new old dstNew srcOld n 0"

definition leafInsert ::
  "'r store \<Rightarrow> 'r \<Rightarrow> 'r \<Rightarrow> u16 \<Rightarrow> byte list \<Rightarrow> byte list \<Rightarrow> fault + 'r store" where
  "leafInsert h new old idx key val =
     bindE (nkeys (h old)) (\<lambda>n.
     bindE (setHeader (h new) BNODE_LEAF (n + 1)) (\<lambda>b.
     bindE (nodeAppendRange (h(new := b)) new old 0 0 idx) (\<lambda>h1.
     bindE (nodeAppendKV (h1 new) idx 0 key val) (\<lambda>b1.
     let h2 = h1(new := b1) in
     bindE (nkeys (h2 old)) (\<lambda>n'.
       nodeAppendRange h2 new old (idx + 1) idx (n' - idx))))))"

definition leafUpdate ::
  "'r store \<Rightarrow> 'r \<Rightarrow> 'r \<Rightarrow> u16 \<Rightarrow> byte list \<Rightarrow> byte list \<Rightarrow> fault + 'r store" where
  "leafUpdate h new old idx key val =
     bindE (nkeys (h old)) (\<lambda>n.
     bindE (setHeader (h new) BNODE_LEAF n) (\<lambda>b.
     bindE (nodeAppendRange (h(new := b)) new old 0 0 idx) (\<lambda>h1.
     bindE (nodeAppendKV (h1 new) idx 0 key val) (\<lambda>b1.
     let h2 = h1(new := b1) in
     bindE (nkeys (h2 old)) (\<lambda>n'.
       nodeAppendRange h2 new old (idx + 1) (idx + 1) (n' - (idx + 1)))))))"

section \<open>Splitting\<close>

text \<open>
  A computation that may also run forever returns an option: \<open>None\<close> is a loop that
  never ends, \<open>Some (Inl e)\<close> a fault and \<open>Some (Inr x)\<close> a result.
\<close>

definition bindP :: "(fault + 'a) option \<Rightarrow> ('a \<Rightarrow> (fault + 'b) option) \<Rightarrow> (fault + 'b) option" where
  "bindP m f = (case m of None \<Rightarrow> None | Some (Inl e) \<Rightarrow> Some (Inl e) | Some (Inr x) \<Rightarrow> f x)"

lemma bindP_mono [partial_function_mono]:
  assumes "mono_option B" and "\<And>y. mono_option (\<lambda>f. C y f)"
  shows "mono_option (\<lambda>f. bindP (B f) (\<lambda>y. C y f))"
proof -
  have eq: "\<And>f. bindP (B f) (\<lambda>y. C y f) =
      Option.bind (B f) (\<lambda>r. case r of Inl e \<Rightarrow> Some (Inl e) | Inr x \<Rightarrow> C x f)"
    by (auto simp: bindP_def split: option.splits sum.splits)
  have "mono_option (\<lambda>f. Option.bind (B f) (\<lambda>r. case r of Inl e \<Rightarrow> Some (Inl e) | Inr x \<Rightarrow> C x f))"
  proof (rule bind_mono [OF assms(1)])
    fix r :: "fault + 'c"
    show "mono_option (\<lambda>f. case r of Inl e \<Rightarrow> Some (Inl e) | Inr x \<Rightarrow> C x f)"
      by (cases r) (simp_all add: assms(2) option.const_mono)
  qed
  then show ?thesis by (simp only: eq)
qed

definition left_bytes :: "BNode \<Rightarrow> u16 \<Rightarrow> fault + u16" where
  "left_bytes old nleft = bindE (getOffset old nleft) (\<lambda>off. Inr (4 + 8 * nleft + 2 * nleft + off))"

definition right_bytes :: "BNode \<Rightarrow> u16 \<Rightarrow> fault + u16" where
  "right_bytes old nleft =
     bindE (nbytes old) (\<lambda>nb. bindE (left_bytes old nleft) (\<lambda>lb. Inr (nb - lb + 4)))"

partial_function (option) fit_left :: "BNode \<Rightarrow> u16 \<Rightarrow> (fault + u16) option" where
  "fit_left old nleft =
     (case left_bytes old nleft of
        Inl e \<Rightarrow> Some (Inl e)
      | Inr lb \<Rightarrow> if BTREE_PAGE_SIZE < unat lb then fit_left old (nleft - 1) else Some (Inr nleft))"

partial_function (option) fit_right :: "BNode \<Rightarrow> u16 \<Rightarrow> (fault + u16) option" where
  "fit_right old nleft =
     (case right_bytes old nleft of
        Inl e \<Rightarrow> Some (Inl e)
      | Inr rb \<Rightarrow> if BTREE_PAGE_SIZE < unat rb then fit_right old (nleft + 1) else Some (Inr nleft))"

definition nodeSplit2 :: "'r store \<Rightarrow> 'r \<Rightarrow> 'r \<Rightarrow> 'r \<Rightarrow> (fault + 'r store) option" where
  "nodeSplit2 h left right old =
     bindP (Some (nkeys (h old))) (\<lambda>n.
     if n < 2 then Some (Inl Fatal)
     else
     bindP (fit_left (h old) (n div 2)) (\<lambda>nleft1.
     if nleft1 < 1 then Some (Inl Fatal)
     else
     bindP (fit_right (h old) nleft1) (\<lambda>nleft.
     Some (
       bindE (nkeys (h old)) (\<lambda>n1.
       if nleft > n1 then Inl Fatal
       else
       bindE (nkeys (h old)) (\<lambda>n2.
       let nright = n2 - nleft in
       bindE (btype (h old)) (\<lambda>bt.
       bindE (setHeader (h left) bt nleft) (\<lambda>bl.
       let h1 = h(left := bl) in
       bindE (btype (h1 old)) (\<lambda>bt'.
       bindE (setHeader (h1 right) bt' nright) (\<lambda>br.
       let h2 = h1(right := br) in
       bindE (nodeAppendRange h2 left old 0 0 nleft) (\<lambda>h3.
       bindE (nodeAppendRange h3 right old 0 nleft nright) (\<lambda>h4.
       bindE (nbytes (h4 right)) (\<lambda>rb.
       if \<not> unat rb \<le> BTREE_PAGE_SIZE then Inl Fatal else Inr h4)))))))))))))"

datatype buf = B_new | B_node | B_old | B_left | B_right | B_leftleft | B_middle

definition make_bytes :: "nat \<Rightarrow> BNode" where
  "make_bytes n = replicate n 0"

text \<open>
  \<open>nodeSplit3\<close> returns the number of nodes and an array of three; an unused place of
  the array is the nil slice, here the empty list.
\<close>

definition nodeSplit3 :: "BNode \<Rightarrow> (fault + (u16 \<times> BNode list)) option" where
  "nodeSplit3 old =
     bindP (Some (nbytes old)) (\<lambda>nb.
     if unat nb \<le> BTREE_PAGE_SIZE then
       Some (bindE (slice old 0 BTREE_PAGE_SIZE) (\<lambda>old'. Inr (1, [old', [], []])))
     else
     let h = (\<lambda>_. [])(B_old := old, B_left := make_bytes (2 * BTREE_PAGE_SIZE),
                        B_right := make_bytes (2 * BTREE_PAGE_SIZE)) in
     bindP (nodeSplit2 h B_left B_right B_old) (\<lambda>h1.
     bindP (Some (nbytes (h1 B_left))) (\<lambda>lb.
     if unat lb \<le> BTREE_PAGE_SIZE then
       Some (bindE (slice (h1 B_left) 0 BTREE_PAGE_SIZE) (\<lambda>left'. Inr (2, [left', h1 B_right, []])))
     else
     let h2 = h1(B_leftleft := make_bytes BTREE_PAGE_SIZE, B_middle := make_bytes BTREE_PAGE_SIZE) in
     bindP (nodeSplit2 h2 B_leftleft B_middle B_left) (\<lambda>h3.
     bindP (Some (nbytes (h3 B_leftleft))) (\<lambda>llb.
     if \<not> unat llb \<le> BTREE_PAGE_SIZE then Some (Inl Fatal)
     else Some (Inr (3, [h3 B_leftleft, h3 B_middle, h3 B_right])))))))"


section \<open>The tree and copy-on-write insertion\<close>

text \<open>
  The tree holds its root and three callbacks that manage the pages on disk. The
  callbacks (\<open>get\<close>, \<open>new\<close>, \<open>del\<close> in the source) work on a page store outside the
  program; its state \<open>'s\<close> is passed along.
\<close>

record 's BTree =
  root :: u64
  page_get :: "'s \<Rightarrow> u64 \<Rightarrow> BNode"
  page_new :: "BNode \<Rightarrow> 's \<Rightarrow> u64 \<times> 's"
  page_del :: "u64 \<Rightarrow> 's \<Rightarrow> 's"

fun replaceKid_loop ::
  "'s BTree \<Rightarrow> 's \<Rightarrow> 'r store \<Rightarrow> 'r \<Rightarrow> u16 \<Rightarrow> nat \<Rightarrow> BNode list \<Rightarrow> fault + ('r store \<times> 's)" where
  "replaceKid_loop tree s h new idx i [] = Inr (h, s)"
| "replaceKid_loop tree s h new idx i (node # kids) =
     (case page_new tree node s of (ptr, s') \<Rightarrow>
        bindE (getKey node 0) (\<lambda>k.
        bindE (nodeAppendKV (h new) (idx + word_of_nat i) ptr k []) (\<lambda>b.
          replaceKid_loop tree s' (h(new := b)) new idx (Suc i) kids)))"

definition nodeReplaceKidN ::
  "'s BTree \<Rightarrow> 's \<Rightarrow> 'r store \<Rightarrow> 'r \<Rightarrow> 'r \<Rightarrow> u16 \<Rightarrow> BNode list \<Rightarrow> fault + ('r store \<times> 's)" where
  "nodeReplaceKidN tree s h new old idx kids =
     (let inc = (word_of_nat (length kids) :: u16) in
      bindE (nkeys (h old)) (\<lambda>n.
      bindE (setHeader (h new) BNODE_NODE (n + inc - 1)) (\<lambda>b.
      bindE (nodeAppendRange (h(new := b)) new old 0 0 idx) (\<lambda>h1.
      bindE (replaceKid_loop tree s h1 new idx 0 kids) (\<lambda>(h2, s').
      bindE (nkeys (h2 old)) (\<lambda>n'.
      bindE (nodeAppendRange h2 new old (idx + inc) (idx + 1) (n' - (idx + 1))) (\<lambda>h3.
        Inr (h3, s'))))))))"

text \<open>
  \<open>treeInsert\<close> returns the buffer \<open>new\<close>. The result here also gives the contents of
  the buffer \<open>node\<close> after the call and the state of the page store.
\<close>

partial_function (option) treeInsert ::
  "'s BTree \<Rightarrow> 's \<Rightarrow> BNode \<Rightarrow> byte list \<Rightarrow> byte list \<Rightarrow> (fault + (BNode \<times> BNode \<times> 's)) option" where
  "treeInsert tree s node key val =
     (let new0 = make_bytes (2 * BTREE_PAGE_SIZE) in
      bindP (Some (nodeLookupLE new0 key)) (\<lambda>idx.
      bindP (Some (btype node)) (\<lambda>bt.
      if bt = BNODE_LEAF then
        Some (bindE (getKey node idx) (\<lambda>k.
          let h = (\<lambda>_. [])(B_new := new0, B_node := node) in
          bindE (if key = k then leafUpdate h B_new B_node idx key val
                 else leafInsert h B_node B_node idx key val) (\<lambda>h'.
            Inr (h' B_new, h' B_node, s))))
      else if bt = BNODE_NODE then
        bindP (Some (getPtr node idx)) (\<lambda>kptr.
        bindP (treeInsert tree s node key val) (\<lambda>(knode, node', s1).
        bindP (nodeSplit3 knode) (\<lambda>(nsplit, split).
        let s2 = page_del tree kptr s1;
            h = (\<lambda>_. [])(B_new := new0, B_node := node') in
        Some (bindE (nodeReplaceKidN tree s2 h B_new B_node idx (take (unat nsplit) split))
          (\<lambda>(h', s3). Inr (h' B_new, h' B_node, s3))))))
      else Some (Inl Panic))))"

section \<open>Durable writes\<close>

text \<open>
  The file system is a map from paths to file contents. What the operating system does on
  one run of \<open>SaveData2\<close> is given by \<open>io_env\<close>: whether opening, writing (and after how
  many bytes), syncing or renaming fails. Opening with \<open>O_EXCL\<close> also fails when the
  file exists. \<open>Close\<close> and \<open>os.Remove\<close>, whose results the source ignores, do not fail
  here, and a rename replaces the target in one step.
\<close>

type_synonym path = string
type_synonym fs = "path \<Rightarrow> byte list option"

datatype io_error = EEXIST | EOPEN | EWRITE | ESYNC | ERENAME

record io_env =
  open_fails :: bool
  write_fails :: "nat option"
  sync_fails :: bool
  rename_fails :: bool

definition digit_char :: "nat \<Rightarrow> char" where
  "digit_char d = char_of (48 + d)"

function show_nat :: "nat \<Rightarrow> string" where
  "show_nat n = (if n < 10 then [digit_char n] else show_nat (n div 10) @ [digit_char (n mod 10)])"
  by pat_completeness auto
termination
  by (relation "measure id") auto

definition tmp_name :: "path \<Rightarrow> nat \<Rightarrow> path" where
  "tmp_name p r = p @ ''.tmp.'' @ show_nat r"

definition os_OpenFile_excl :: "io_env \<Rightarrow> fs \<Rightarrow> path \<Rightarrow> io_error + fs" where
  "os_OpenFile_excl env f p =
     (if f p \<noteq> None then Inl EEXIST
      else if open_fails env then Inl EOPEN
      else Inr (f(p := Some [])))"

definition fp_Write :: "io_env \<Rightarrow> fs \<Rightarrow> path \<Rightarrow> byte list \<Rightarrow> io_error option \<times> fs" where
  "fp_Write env f p data =
     (case write_fails env of
        Some k \<Rightarrow> (Some EWRITE, f(p := Some (take k data)))
      | None \<Rightarrow> (None, f(p := Some data)))"

definition fp_Sync :: "io_env \<Rightarrow> io_error option" where
  "fp_Sync env = (if sync_fails env then Some ESYNC else None)"

definition os_Rename :: "io_env \<Rightarrow> fs \<Rightarrow> path \<Rightarrow> path \<Rightarrow> io_error option \<times> fs" where
  "os_Rename env f src dst =
     (if rename_fails env then (Some ERENAME, f)
      else (None, (f(dst := f src))(src := None)))"

definition os_Remove :: "fs \<Rightarrow> path \<Rightarrow> fs" where
  "os_Remove f p = f(p := None)"

text \<open>
  The deferred function of \<open>SaveData2\<close> closes the file and removes the temporary file
  when the variable \<open>err\<close> is not nil. \<open>err\<close> is assigned by the open, the write and the
  sync; the result of the rename is returned without being assigned to it.
\<close>

definition deferred :: "io_error option \<Rightarrow> fs \<Rightarrow> path \<Rightarrow> fs" where
  "deferred err f tmp = (if err \<noteq> None then os_Remove f tmp else f)"

definition SaveData2 :: "io_env \<Rightarrow> nat \<Rightarrow> fs \<Rightarrow> path \<Rightarrow> byte list \<Rightarrow> io_error option \<times> fs" where
  "SaveData2 env r f p data =
     (let tmp = tmp_name p r in
      case os_OpenFile_excl env f tmp of
        Inl e \<Rightarrow> (Some e, f)
      | Inr f1 \<Rightarrow>
          (case fp_Write env f1 tmp data of (err, f2) \<Rightarrow>
             if err \<noteq> None then (err, deferred err f2 tmp)
             else (let err = fp_Sync env in
                   if err \<noteq> None then (err, deferred err f2 tmp)
                   else (case os_Rename env f2 tmp p of (rerr, f3) \<Rightarrow>
                           (rerr, deferred err f3 tmp)))))"


section \<open>Example nodes\<close>

text \<open>
  Pages of 4096 bytes: a leaf with the one entry \<open>a \<mapsto> 1\<close> (key byte 97, value byte 49),
  a leaf with the one entry \<open>b \<mapsto> 1\<close>, an empty leaf, and an internal node with one
  child pointer 7 under the empty key.
\<close>

definition leaf_a :: BNode where
  "leaf_a = [2,0, 1,0, 0,0,0,0,0,0,0,0, 6,0, 1,0, 1,0, 97, 49] @ replicate 4076 0"

definition leaf_b :: BNode where
  "leaf_b = [2,0, 1,0, 0,0,0,0,0,0,0,0, 6,0, 1,0, 1,0, 98, 49] @ replicate 4076 0"


definition inner_one :: BNode where
  "inner_one = [1,0, 1,0, 7,0,0,0,0,0,0,0, 4,0, 0,0, 0,0] @ replicate 4078 0"

section \<open>The lookup index of an insertion\<close>

lemma le_decode_zeros: "le_decode (replicate k 0) = 0"
  by (induction k) simp_all

lemma nkeys_make_bytes: "4 \<le> n \<Longrightarrow> nkeys (make_bytes n) = Inr 0"
  by (simp add: nkeys_def make_bytes_def slice_def bindE_def Uint16_def le_decode_zeros)

text \<open>
  \<open>treeInsert\<close> looks the key up in the fresh buffer \<open>new\<close>, which has no keys: the
  loop is not entered and the result is \<open>0 - 1\<close>, that is 65535.
\<close>

lemma nodeLookupLE_new: "nodeLookupLE (make_bytes (2 * BTREE_PAGE_SIZE)) key = Inr 65535"
  by (simp add: nodeLookupLE_def nkeys_make_bytes BTREE_PAGE_SIZE_def bindE_def)

lemma u16_not_above_max: "\<not> (65535 :: u16) < n"
  using unsigned_less [of n, where 'a = nat] by (simp add: word_less_nat_alt)

lemma getKey_max: "getKey node 65535 = (case nkeys node of Inl e \<Rightarrow> Inl e | Inr n \<Rightarrow> Inl Fatal)"
  by (cases "nkeys node") (simp_all add: getKey_def bindE_def u16_not_above_max)

lemma getPtr_max: "getPtr node 65535 = (case nkeys node of Inl e \<Rightarrow> Inl e | Inr n \<Rightarrow> Inl Fatal)"
  by (cases "nkeys node") (simp_all add: getPtr_def bindE_def u16_not_above_max)

text \<open>
  So the index check of \<open>getKey\<close> (leaf) or \<open>getPtr\<close> (internal node) fails in every
  call, before anything is written and before the recursive call.
\<close>

lemma treeInsert_unfold:
  "treeInsert tree s node key val =
     (case btype node of
        Inl e \<Rightarrow> Some (Inl e)
      | Inr bt \<Rightarrow>
          if bt = BNODE_LEAF \<or> bt = BNODE_NODE
          then (case nkeys node of Inl e \<Rightarrow> Some (Inl e) | Inr n \<Rightarrow> Some (Inl Fatal))
          else Some (Inl Panic))"
  by (subst treeInsert.simps)
     (simp add: nodeLookupLE_new bindP_def bindE_def getKey_max getPtr_max Let_def
           split: sum.splits)

text \<open>
  C1. Inserting the new key \<open>b\<close> (byte 98) with value \<open>2\<close> (byte 50) into the leaf that
  holds \<open>a \<mapsto> 1\<close> does not return a leaf with the entry inserted: the call ends in
  \<open>log.Fatal\<close>.
\<close>

theorem treeInsert_leaf_insert_fatal:
  "treeInsert tree s leaf_a [98] [50] = Some (Inl Fatal)"
  by (simp add: treeInsert_unfold leaf_a_def btype_def nkeys_def slice_def bindE_def
        Uint16_def BNODE_LEAF_def)

text \<open>
  C2. Inserting into an internal node with one child does not read the child, recurse,
  split or build a new internal node: the call ends in \<open>log.Fatal\<close> at \<open>getPtr\<close>, and
  the page store is not touched.
\<close>

theorem treeInsert_internal_fatal:
  "treeInsert tree s inner_one [98] [50] = Some (Inl Fatal)"
  by (simp add: treeInsert_unfold inner_one_def btype_def nkeys_def slice_def bindE_def
        Uint16_def BNODE_NODE_def BNODE_LEAF_def)



text \<open>
  C7. For the leaf with the single key \<open>b\<close> and the smaller key \<open>a\<close>, \<open>nodeLookupLE\<close>
  returns 65535 (the \<open>uint16\<close> value of \<open>0 - 1\<close>), an index out of range, and not 0.
\<close>

theorem nodeLookupLE_below_first_key:
  "nodeLookupLE leaf_b [97] = Inr 65535"
  by (simp add: nodeLookupLE_def leaf_b_def nkeys_def getKey_def kvPos_def getOffset_def
        slice_def slice_from_def bindE_def Uint16_def HEADER_def)

section \<open>Properties of the durable write\<close>

lemma tmp_name_neq: "tmp_name p r \<noteq> p"
  by (simp add: tmp_name_def)

lemma tmp_name_db_7: "tmp_name ''db'' 7 = ''db.tmp.7''"
  by code_simp

definition env_ok :: io_env where
  "env_ok = \<lparr>open_fails = False, write_fails = None, sync_fails = False, rename_fails = False\<rparr>"

definition fs_db :: fs where
  "fs_db = (\<lambda>_. None)(''db'' := Some [1])"

definition fs_db_tmp :: fs where
  "fs_db_tmp = (\<lambda>_. None)(''db'' := Some [1], ''db.tmp.7'' := Some [2])"

text \<open>
  C8, as stated, fails when the open of the temporary file fails because a file of that
  name exists: \<open>SaveData2\<close> returns the error before the deferred function is set up,
  and the file at the temporary path is still there.
\<close>

theorem SaveData2_open_failure_keeps_tmp:
  "fst (SaveData2 env_ok 7 fs_db_tmp ''db'' [3]) = Some EEXIST \<and>
   snd (SaveData2 env_ok 7 fs_db_tmp ''db'' [3]) (tmp_name ''db'' 7) = Some [2]"
  by (simp add: SaveData2_def tmp_name_db_7 os_OpenFile_excl_def fs_db_tmp_def)

text \<open>
  C8, amended. \<open>SaveData2\<close> either succeeds, and then the target holds exactly the new
  data, or returns an error. When the write or the sync fails, the target is as before and
  the temporary file has been removed. When the open of the temporary file fails, the file
  system is left as it was. In every case the target holds its previous contents or the
  new data, never a mix.
\<close>

theorem SaveData2_atomic:
  assumes "SaveData2 env r f p data = (err, f')"
  shows "(err = None \<longrightarrow> f' p = Some data) \<and>
         (err = Some EWRITE \<or> err = Some ESYNC \<longrightarrow> f' p = f p \<and> f' (tmp_name p r) = None) \<and>
         (err = Some EEXIST \<or> err = Some EOPEN \<longrightarrow> f' = f) \<and>
         (f' p = f p \<or> f' p = Some data)"
  using assms tmp_name_neq [of p r]
  by (auto simp: SaveData2_def os_OpenFile_excl_def fp_Write_def fp_Sync_def os_Rename_def
        os_Remove_def deferred_def Let_def split: option.splits sum.splits if_splits)

theorem SaveData2_atomic_witness:
  "SaveData2 (env_ok\<lparr>write_fails := Some 1\<rparr>) 7 fs_db ''db'' [3, 4] = (Some EWRITE, fs_db) \<and>
   fs_db ''db'' = Some [1] \<and> fs_db (tmp_name ''db'' 7) = None"
proof -
  have run: "SaveData2 (env_ok\<lparr>write_fails := Some 1\<rparr>) 7 fs_db ''db'' [3, 4] = (Some EWRITE, fs_db)"
    by (simp add: SaveData2_def tmp_name_db_7 os_OpenFile_excl_def fp_Write_def deferred_def
          os_Remove_def fs_db_def env_ok_def fun_eq_iff)
  from SaveData2_atomic [OF run] run show ?thesis
    by (simp add: fs_db_def)
qed

text \<open>
  C10. When the rename fails, \<open>SaveData2\<close> returns that error and the temporary file
  stays on disk with the data written to it. A temporary file that is left behind always
  comes from a failed rename: the failures of the open, the write and the sync leave none.
\<close>

theorem SaveData2_rename_failure_leaves_tmp:
  assumes "f (tmp_name p r) = None"
  shows "(\<not> open_fails env \<and> write_fails env = None \<and> \<not> sync_fails env \<and> rename_fails env \<longrightarrow>
            SaveData2 env r f p data = (Some ERENAME, f(tmp_name p r := Some data))) \<and>
         (snd (SaveData2 env r f p data) (tmp_name p r) \<noteq> None \<longrightarrow>
            fst (SaveData2 env r f p data) = Some ERENAME)"
  using assms tmp_name_neq [of p r]
  by (auto simp: SaveData2_def os_OpenFile_excl_def fp_Write_def fp_Sync_def os_Rename_def
        os_Remove_def deferred_def Let_def split: option.splits sum.splits if_splits)

theorem SaveData2_rename_failure_witness:
  "SaveData2 (env_ok\<lparr>rename_fails := True\<rparr>) 7 fs_db ''db'' [3, 4] =
     (Some ERENAME, fs_db(''db.tmp.7'' := Some [3, 4]))"
proof -
  have free: "fs_db (tmp_name ''db'' 7) = None"
    by (simp add: fs_db_def tmp_name_db_7)
  from SaveData2_rename_failure_leaves_tmp
      [of fs_db "''db''" 7 "env_ok\<lparr>rename_fails := True\<rparr>" "[3, 4]", OF free]
  show ?thesis
    by (simp add: env_ok_def tmp_name_db_7)
qed

end
